theory Spec2Isabelle
  imports Complex_Main
begin

section \<open>Instants and durations\<close>

text \<open>
  The cache reads the clock through Go's \<^verbatim>\<open>time\<close> package. An instant is modelled as
  the number of nanoseconds since the zero instant of \<^verbatim>\<open>time.Time\<close> (January 1, year 1,
  00:00:00 UTC), a duration as a number of nanoseconds. \<^verbatim>\<open>time.Duration\<close> is a 64-bit
  signed integer, and \<^verbatim>\<open>Time.Sub\<close> saturates at its two bounds; that saturation is
  written out in \<open>Sub\<close>. Every call of \<^verbatim>\<open>time.Now()\<close> in the source becomes an explicit
  argument \<open>now\<close> of the operation that makes the call.
\<close>

type_synonym time = int
type_synonym duration = int

definition minDuration :: duration where
  "minDuration = - (2 ^ 63)"

definition maxDuration :: duration where
  "maxDuration = 2 ^ 63 - 1"

definition Second :: duration where
  "Second = 1000000000"

definition IsZero :: "time \<Rightarrow> bool" where
  "IsZero t = (t = 0)"

definition After :: "time \<Rightarrow> time \<Rightarrow> bool" where
  "After t u = (u < t)"

definition Add :: "time \<Rightarrow> duration \<Rightarrow> time" where
  "Add t d = t + d"

definition Sub :: "time \<Rightarrow> time \<Rightarrow> duration" where
  "Sub t u =
     (if t - u < minDuration then minDuration
      else if maxDuration < t - u then maxDuration
      else t - u)"

section \<open>Values of type float64\<close>

text \<open>
  The continue ratio of the bounded-batch expirer is a \<^verbatim>\<open>float64\<close>. The model keeps the
  four kinds of IEEE 754 values apart, since the comparisons of the source treat them
  differently: every ordered comparison with a NaN is false. A finite value is carried
  as a rational number.
\<close>

datatype float64 = NaN | NegInf | Finite rat | PosInf

fun f64_lt :: "float64 \<Rightarrow> float64 \<Rightarrow> bool" where
  "f64_lt (Finite a) (Finite b) = (a < b)"
| "f64_lt (Finite a) PosInf = True"
| "f64_lt NegInf (Finite b) = True"
| "f64_lt NegInf PosInf = True"
| "f64_lt _ _ = False"

fun f64_le :: "float64 \<Rightarrow> float64 \<Rightarrow> bool" where
  "f64_le (Finite a) (Finite b) = (a \<le> b)"
| "f64_le (Finite a) PosInf = True"
| "f64_le NegInf (Finite b) = True"
| "f64_le NegInf PosInf = True"
| "f64_le NegInf NegInf = True"
| "f64_le PosInf PosInf = True"
| "f64_le _ _ = False"

definition f64_gt :: "float64 \<Rightarrow> float64 \<Rightarrow> bool" where
  "f64_gt a b = f64_lt b a"

text \<open>
  The two literals of the source that are not dyadic, written as the float64 nearest to
  them: \<^verbatim>\<open>0.01\<close> is \<open>5764607523034235 / 2^59\<close> and \<^verbatim>\<open>0.2\<close> is \<open>3602879701896397 / 2^54\<close>.
\<close>

definition f64_0_01 :: float64 where
  "f64_0_01 = Finite (5764607523034235 / 576460752303423488)"

definition f64_0_2 :: float64 where
  "f64_0_2 = Finite (3602879701896397 / 18014398509481984)"

text \<open>
  Rounding to the nearest float64, ties to the even significand. A non-zero magnitude is
  scaled by a power of two into the interval from \<open>2^52\<close> up to \<open>2^53\<close>, rounded to an
  integer there and scaled back. \<open>halvings\<close> and \<open>doublings\<close> count the steps of the
  scaling. The values that reach this function are 64-bit integers and quotients of two
  of them: their magnitudes lie between \<open>2^-63\<close> and \<open>2^63\<close>, so 64 steps are enough, and
  overflow and gradual underflow, which lie far outside, are not written out.
\<close>

definition round_half_even :: "rat \<Rightarrow> int" where
  "round_half_even x =
     (let f = \<lfloor>x\<rfloor>; d = x - of_int f
      in if d < 1 / 2 then f
         else if 1 / 2 < d then f + 1
         else if even f then f else f + 1)"

fun halvings :: "nat \<Rightarrow> rat \<Rightarrow> nat" where
  "halvings 0 q = 0"
| "halvings (Suc n) q = (if q < 2 then 0 else Suc (halvings n (q / 2)))"

fun doublings :: "nat \<Rightarrow> rat \<Rightarrow> nat" where
  "doublings 0 q = 0"
| "doublings (Suc n) q = (if 1 \<le> q then 0 else Suc (doublings n (q * 2)))"

definition f64_round :: "rat \<Rightarrow> rat" where
  "f64_round q =
     (if q = 0 then 0
      else (let m = \<bar>q\<bar>;
                h = halvings 64 m;
                d = doublings 64 m;
                n = round_half_even (m * 2 ^ (52 + d) / 2 ^ h)
            in sgn q * of_int n * 2 ^ h / 2 ^ (52 + d)))"

text \<open>
  \<^verbatim>\<open>float64(expired) / float64(count)\<close>: both conversions and the division round. A
  zero divisor gives a NaN or an infinity, as the machine division does.
\<close>

definition f64_quot :: "int \<Rightarrow> int \<Rightarrow> float64" where
  "f64_quot a b =
     (let x = f64_round (of_int a); y = f64_round (of_int b)
      in if y = 0 then (if x = 0 then NaN else if 0 < x then PosInf else NegInf)
         else Finite (f64_round (x / y)))"

section \<open>The cache and its entries\<close>

text \<open>
  \<^verbatim>\<open>type value struct { expireAt time.Time; data interface{} }\<close>: the payload is an
  opaque interface value, \<open>None\<close> being the nil interface.
\<close>

record 'a value_rec =
  expireAt :: time
  data :: "'a option"

text \<open>
  A Go map is a reference that may be nil: reading, deleting from and ranging over a nil
  map behave as on an empty map, assigning into it panics. \<open>None\<close> is the nil map.
\<close>

type_synonym 'a gomap = "(string \<rightharpoonup> 'a value_rec) option"

definition map_index :: "'a gomap \<Rightarrow> string \<Rightarrow> 'a value_rec option" where
  "map_index mo k = (case mo of None \<Rightarrow> None | Some m \<Rightarrow> m k)"

definition map_delete :: "'a gomap \<Rightarrow> string \<Rightarrow> 'a gomap" where
  "map_delete mo k = (case mo of None \<Rightarrow> None | Some m \<Rightarrow> Some (m(k := None)))"

definition len :: "'a gomap \<Rightarrow> int" where
  "len mo = (case mo of None \<Rightarrow> 0 | Some m \<Rightarrow> int (card (dom m)))"

definition keys :: "'a gomap \<Rightarrow> string set" where
  "keys mo = (case mo of None \<Rightarrow> {} | Some m \<Rightarrow> dom m)"

datatype error = ErrAlreadyClosed

datatype panic = AssignToNilMap

record expirePartial =
  batchSize :: int
  continueRatio :: float64

datatype Expirer = ExpireAll | ExpirePartial expirePartial

text \<open>
  The cache. The mutex is not a field of the model: every public operation holds it from
  its first statement to its return, so each operation is one atomic state transformer.
  \<open>chClean\<close> is the wake channel of the background cleaner: \<open>None\<close> is the nil channel
  (no cleaner running), \<open>Some b\<close> a channel of capacity one, where \<open>b\<close> is true when a
  wake-up has been sent that the cleaner has not acted on yet: it sits in the buffer of
  the channel, or it was handed to the cleaner parked at its receive, which has not run
  since.
\<close>

record 'a Cache =
  durClean :: duration
  expirer :: Expirer
  closed :: bool
  chClean :: "bool option"
  objs :: "'a gomap"

text \<open>
  The map is nil only once the cache is closed: \<open>New\<close> makes a map and \<open>Close\<close> is the
  one place that sets it to nil, together with the flag.
\<close>

definition cache_inv :: "'a Cache \<Rightarrow> bool" where
  "cache_inv c = (objs c = None \<longrightarrow> closed c)"

section \<open>Options and construction\<close>

record options =
  cleanInterval :: duration
  expirer_o :: Expirer
  startingSize :: int

datatype Option = WithCleanInterval duration | WithExpirer Expirer | WithStartingSize int

fun modify :: "Option \<Rightarrow> options \<Rightarrow> options" where
  "modify (WithCleanInterval dur) ops = ops\<lparr>cleanInterval := dur\<rparr>"
| "modify (WithExpirer e) ops = ops\<lparr>expirer_o := e\<rparr>"
| "modify (WithStartingSize n) ops = ops\<lparr>startingSize := n\<rparr>"

definition NewExpireAll :: Expirer where
  "NewExpireAll = ExpireAll"

definition NewExpirePartial :: "int \<Rightarrow> float64 \<Rightarrow> Expirer" where
  "NewExpirePartial bs cr =
     (let bs' = (if bs \<le> 0 then 1 else bs);
          cr' = (if f64_le cr (Finite 0) then f64_0_01
                 else if f64_gt cr (Finite 1) then Finite 1
                 else cr)
      in ExpirePartial \<lparr>batchSize = bs', continueRatio = cr'\<rparr>)"

definition defaultOptions :: options where
  "defaultOptions =
     \<lparr>cleanInterval = 10 * Second,
      expirer_o = NewExpirePartial 1000 f64_0_2,
      startingSize = 0\<rparr>"

text \<open>Both branches on \<open>startingSize\<close> make an empty, non-nil map; the size is a capacity hint.\<close>

definition New :: "Option list \<Rightarrow> 'a Cache" where
  "New ops =
     (let op = fold modify ops defaultOptions
      in \<lparr>durClean = cleanInterval op,
          expirer = expirer_o op,
          closed = False,
          chClean = None,
          objs = (if startingSize op > 0 then Some Map.empty else Some Map.empty)\<rparr>)"

section \<open>The expiration predicate and the public operations\<close>

definition isExpired :: "time \<Rightarrow> 'a value_rec \<Rightarrow> bool" where
  "isExpired now v = (\<not> IsZero (expireAt v) \<and> After now (expireAt v))"

text \<open>
  \<open>Get\<close> returns the payload (\<open>None\<close> is Go's nil) and the cache after the call.
\<close>

definition Get :: "time \<Rightarrow> string \<Rightarrow> 'a Cache \<Rightarrow> 'a option \<times> 'a Cache" where
  "Get now key c =
     (case map_index (objs c) key of
        None \<Rightarrow> (None, c)
      | Some v \<Rightarrow>
          if isExpired now v then (None, c\<lparr>objs := map_delete (objs c) key\<rparr>)
          else (data v, c))"

definition Len :: "'a Cache \<Rightarrow> int" where
  "Len c = len (objs c)"

text \<open>
  \<open>SetEx\<close> returns the cache after the call, or the panic of an assignment into a nil
  map. Making the channel and starting the cleaner is the step from \<open>None\<close> to
  \<open>Some False\<close> of \<open>chClean\<close>.
\<close>

definition SetEx ::
  "time \<Rightarrow> string \<Rightarrow> 'a option \<Rightarrow> duration \<Rightarrow> 'a Cache \<Rightarrow> panic + 'a Cache" where
  "SetEx now key val exp' c =
     (if val = None \<or> exp' \<le> 0 then Inr c
      else if closed c then Inr c
      else case objs c of
             None \<Rightarrow> Inl AssignToNilMap
           | Some m \<Rightarrow>
               Inr (c\<lparr>objs := Some (m(key \<mapsto> \<lparr>expireAt = Add now exp', data = val\<rparr>)),
                      chClean := (if chClean c = None then Some False else chClean c)\<rparr>))"

definition TTL :: "time \<Rightarrow> string \<Rightarrow> 'a Cache \<Rightarrow> duration \<times> 'a Cache" where
  "TTL now key c =
     (case map_index (objs c) key of
        None \<Rightarrow> (- 1, c)
      | Some v \<Rightarrow>
          (let ttl = Sub (expireAt v) now
           in if ttl \<le> 0 then (- 1, c\<lparr>objs := map_delete (objs c) key\<rparr>)
              else (ttl, c)))"

text \<open>
  \<open>Close\<close> returns Go's error value (\<open>None\<close> is the nil error) and the cache after the
  call. When there is a channel, the non-blocking send leaves a wake-up for the cleaner:
  handed to it when it is parked, put into the buffer when that is empty, and dropped when
  the buffer already holds one.
\<close>

definition Close :: "'a Cache \<Rightarrow> error option \<times> 'a Cache" where
  "Close c =
     (if closed c then (Some ErrAlreadyClosed, c)
      else (None, c\<lparr>closed := True,
                     objs := None,
                     chClean := (case chClean c of None \<Rightarrow> None | Some b \<Rightarrow> Some True)\<rparr>))"

section \<open>Expiration strategies\<close>

text \<open>
  A \<^verbatim>\<open>range\<close> over a Go map yields the keys in an order the runtime chooses anew each
  time. The order is an argument \<open>ks\<close> of the loops below. The loop bodies delete only
  the key they are visiting, and a key deleted before it is reached is not produced, so
  a key of \<open>ks\<close> that the map does not hold is skipped.
\<close>

fun expireAll_loop ::
  "time \<Rightarrow> string list \<Rightarrow> (string \<rightharpoonup> 'a value_rec) \<Rightarrow> (string \<rightharpoonup> 'a value_rec)" where
  "expireAll_loop now [] m = m"
| "expireAll_loop now (k # ks) m =
     (case m k of
        None \<Rightarrow> expireAll_loop now ks m
      | Some v \<Rightarrow>
          if isExpired now v then expireAll_loop now ks (m(k := None))
          else expireAll_loop now ks m)"

definition lockedExpireAll :: "time \<Rightarrow> string list \<Rightarrow> 'a gomap \<Rightarrow> 'a gomap" where
  "lockedExpireAll now ks mo =
     (case mo of None \<Rightarrow> None | Some m \<Rightarrow> Some (expireAll_loop now ks m))"

text \<open>The loop of \<open>lockedExpireSome\<close>, returning \<open>count\<close>, \<open>expired\<close> and the map.\<close>

fun expireSome_loop ::
  "time \<Rightarrow> int \<Rightarrow> string list \<Rightarrow> (string \<rightharpoonup> 'a value_rec) \<Rightarrow> int \<Rightarrow> int
     \<Rightarrow> int \<times> int \<times> (string \<rightharpoonup> 'a value_rec)" where
  "expireSome_loop now sz [] m count expired = (count, expired, m)"
| "expireSome_loop now sz (k # ks) m count expired =
     (case m k of
        None \<Rightarrow> expireSome_loop now sz ks m count expired
      | Some v \<Rightarrow>
          (let expired' = (if isExpired now v then expired + 1 else expired);
               m' = (if isExpired now v then m(k := None) else m);
               count' = count + 1
           in if count' \<ge> sz then (count', expired', m')
              else expireSome_loop now sz ks m' count' expired'))"

definition lockedExpireSome ::
  "time \<Rightarrow> int \<Rightarrow> string list \<Rightarrow> 'a gomap \<Rightarrow> float64 \<times> 'a gomap" where
  "lockedExpireSome now sz ks mo =
     (case mo of
        None \<Rightarrow> (Finite 0, None)
      | Some m \<Rightarrow>
          (case expireSome_loop now sz ks m 0 0 of
             (count, expired, m') \<Rightarrow>
               (if count = 0 then Finite 0 else f64_quot expired count, Some m')))"

text \<open>
  What the environment supplies to one pass of a strategy: the reading of the clock, the
  order in which the map is ranged over, and what the other goroutines do to the cache
  while the bounded-batch strategy has released the lock after the pass.
\<close>

record 'a round =
  r_now :: time
  r_order :: "string list"
  r_env :: "'a Cache \<Rightarrow> 'a Cache"

definition expireAll_lockedExpire :: "time \<Rightarrow> string list \<Rightarrow> 'a Cache \<Rightarrow> 'a Cache" where
  "expireAll_lockedExpire now ks c = c\<lparr>objs := lockedExpireAll now ks (objs c)\<rparr>"

text \<open>
  The \<^verbatim>\<open>for\<close> loop of the bounded-batch strategy has no bound of its own: the other
  goroutines may refill the map during every release of the lock. It runs on the list of
  rounds the environment supplies, and \<open>None\<close> says that the list ended before the
  loop returned.
\<close>

fun expirePartial_loop ::
  "expirePartial \<Rightarrow> 'a round list \<Rightarrow> 'a Cache \<Rightarrow> 'a Cache option" where
  "expirePartial_loop e [] c = None"
| "expirePartial_loop e (r # rs) c =
     (case lockedExpireSome (r_now r) (batchSize e) (r_order r) (objs c) of
        (ratio, mo) \<Rightarrow>
          if f64_lt ratio (continueRatio e) then Some (c\<lparr>objs := mo\<rparr>)
          else (let c' = r_env r (c\<lparr>objs := mo\<rparr>)
                in if closed c' then Some c' else expirePartial_loop e rs c'))"

definition expirePartial_lockedExpire ::
  "expirePartial \<Rightarrow> 'a round list \<Rightarrow> 'a Cache \<Rightarrow> 'a Cache option" where
  "expirePartial_lockedExpire e rs c =
     (case rs of
        [] \<Rightarrow> None
      | r # rs' \<Rightarrow>
          if batchSize e \<ge> len (objs c)
          then Some (expireAll_lockedExpire (r_now r) (r_order r) c)
          else expirePartial_loop e rs c)"

fun lockedExpire :: "Expirer \<Rightarrow> 'a round list \<Rightarrow> 'a Cache \<Rightarrow> 'a Cache option" where
  "lockedExpire ExpireAll [] c = None"
| "lockedExpire ExpireAll (r # rs) c =
     Some (expireAll_lockedExpire (r_now r) (r_order r) c)"
| "lockedExpire (ExpirePartial e) rs c = expirePartial_lockedExpire e rs c"

section \<open>Facts about the clock model\<close>

lemma Sub_pos: "0 < Sub t u \<longleftrightarrow> u < t"
  by (simp add: Sub_def minDuration_def maxDuration_def)

lemma Sub_nonpos: "Sub t u \<le> 0 \<longleftrightarrow> t \<le> u"
  by (simp add: Sub_def minDuration_def maxDuration_def)

lemma Sub_le: "0 < t - u \<Longrightarrow> Sub t u \<le> t - u"
  by (simp add: Sub_def minDuration_def maxDuration_def)

section \<open>Facts about the float model\<close>

text \<open>
  One expired entry among five scanned gives the float64 of the literal \<^verbatim>\<open>0.2\<close>, which
  is not below the default continue ratio, although the exact quotient \<open>1/5\<close> is.
\<close>

lemma f64_quot_one_fifth:
  "f64_quot 1 5 = f64_0_2 \<and> \<not> f64_lt (f64_quot 1 5) f64_0_2"
  by code_simp

section \<open>The expiration predicate\<close>

text \<open>
  Claim C1. An entry is expired at the instant \<open>now\<close> exactly when its deadline is set
  (is not the zero instant) and \<open>now\<close> is strictly after the deadline; an entry whose
  deadline is not set is expired at no instant.
\<close>

theorem isExpired_contract:
  "(isExpired now v \<longleftrightarrow> expireAt v \<noteq> 0 \<and> expireAt v < now) \<and>
   (IsZero (expireAt v) \<longrightarrow> \<not> isExpired now v)"
  by (simp add: isExpired_def IsZero_def After_def)

theorem isExpired_contract_witness:
  "IsZero (expireAt \<lparr>expireAt = 0, data = Some ''v''\<rparr>) \<and>
   \<not> isExpired 10 \<lparr>expireAt = 0, data = Some ''v''\<rparr> \<and>
   isExpired 10 \<lparr>expireAt = 5, data = Some ''v''\<rparr> \<and>
   \<not> isExpired 5 \<lparr>expireAt = 5, data = Some ''v''\<rparr>"
  using isExpired_contract [of 10 "\<lparr>expireAt = 0, data = Some ''v''\<rparr>"]
    isExpired_contract [of 10 "\<lparr>expireAt = 5, data = Some ''v''\<rparr>"]
    isExpired_contract [of 5 "\<lparr>expireAt = 5, data = Some ''v''\<rparr>"]
  by (simp add: IsZero_def)

section \<open>The invariant of the map reference\<close>

lemma cache_inv_New: "cache_inv (New ops)"
  by (simp add: cache_inv_def New_def Let_def)

lemma cache_inv_Get: "cache_inv c \<Longrightarrow> cache_inv (snd (Get now key c))"
  by (auto simp: cache_inv_def Get_def map_delete_def split: option.splits)

lemma cache_inv_TTL: "cache_inv c \<Longrightarrow> cache_inv (snd (TTL now key c))"
  by (auto simp: cache_inv_def TTL_def Let_def map_delete_def split: option.splits)

lemma cache_inv_SetEx: "cache_inv c \<Longrightarrow> SetEx now key val d c = Inr c' \<Longrightarrow> cache_inv c'"
  by (auto simp: cache_inv_def SetEx_def split: option.splits if_splits)

lemma SetEx_no_panic: "cache_inv c \<Longrightarrow> \<exists>c'. SetEx now key val d c = Inr c'"
  by (auto simp: cache_inv_def SetEx_def split: option.splits if_splits)

lemma cache_inv_Close: "cache_inv (snd (Close c))"
  by (auto simp: cache_inv_def Close_def)

lemma cache_inv_expireAll: "cache_inv c \<Longrightarrow> cache_inv (expireAll_lockedExpire now ks c)"
  by (auto simp: cache_inv_def expireAll_lockedExpire_def lockedExpireAll_def
      split: option.splits)

lemma lockedExpireSome_nil:
  "(snd (lockedExpireSome now sz ks mo) = None) = (mo = None)"
  by (cases mo) (auto simp: lockedExpireSome_def split: prod.splits)

section \<open>Writing and reading back\<close>

text \<open>
  Claim C3. On a cache that has not been closed (its map is then not nil, by the
  invariant), for every key, payload and \<open>ttl > 0\<close>:
  \<open>SetEx\<close> at the instant \<open>now\<close> returns without a panic, and at every later reading
  \<open>now'\<close> of the clock that is still before \<open>now + ttl\<close> (the reading \<open>now' = now\<close>
  included) \<open>Get\<close> returns that payload and \<open>TTL\<close> returns a duration \<open>d\<close> with
  \<open>0 < d \<le> ttl\<close>, both leaving the cache as it is.
\<close>

theorem SetEx_then_Get_TTL:
  assumes "cache_inv c" and "\<not> closed c" and "0 < ttl"
    and "now \<le> now'" and "now' < now + ttl"
  shows "\<exists>c'. SetEx now key (Some p) ttl c = Inr c' \<and>
           Get now' key c' = (Some p, c') \<and>
           (\<exists>d. TTL now' key c' = (d, c') \<and> 0 < d \<and> d \<le> ttl)"
proof -
  from assms(1,2) obtain m where m: "objs c = Some m"
    by (auto simp: cache_inv_def)
  define c' where "c' = c\<lparr>objs := Some (m(key \<mapsto> \<lparr>expireAt = Add now ttl, data = Some p\<rparr>)),
                      chClean := (if chClean c = None then Some False else chClean c)\<rparr>"
  have s: "SetEx now key (Some p) ttl c = Inr c'"
    using assms(2,3) m by (simp add: SetEx_def c'_def)
  have ix: "map_index (objs c') key = Some \<lparr>expireAt = now + ttl, data = Some p\<rparr>"
    by (simp add: c'_def map_index_def Add_def)
  have g: "Get now' key c' = (Some p, c')"
    using assms(5) by (simp add: Get_def ix isExpired_def After_def)
  have pos: "0 < Sub (now + ttl) now'"
    using assms(5) by (simp add: Sub_pos)
  have le: "Sub (now + ttl) now' \<le> ttl"
    using Sub_le [of "now + ttl" now'] assms(4,5) by linarith
  have t: "TTL now' key c' = (Sub (now + ttl) now', c')"
    using pos by (simp add: TTL_def ix Let_def)
  show ?thesis using s g t pos le by blast
qed

theorem SetEx_then_Get_TTL_witness:
  "\<exists>c'. SetEx 1000 ''a'' (Some ''v1'') 50 (New []) = Inr c' \<and>
      Get 1020 ''a'' c' = (Some ''v1'', c') \<and>
      (\<exists>d. TTL 1020 ''a'' c' = (d, c') \<and> 0 < d \<and> d \<le> 50)"
proof -
  have i: "cache_inv (New [] :: string Cache)" by (simp add: cache_inv_def New_def)
  have o: "\<not> closed (New [] :: string Cache)" by (simp add: New_def)
  show ?thesis
    using SetEx_then_Get_TTL [OF i o, of 50 1000 1020 "''a''" "''v1''"] by simp
qed

text \<open>
  Claim C4, as stated, fails for a payload that is empty without being nil. The source
  tests \<^verbatim>\<open>val == nil\<close> only: the empty string is a non-nil interface value, so
  \<open>SetEx\<close> stores it, and \<open>Get\<close>, which returned nil for the key before, returns it.
\<close>

theorem SetEx_stores_empty_payload:
  "SetEx 5 ''e'' (Some '''') 10 (New [])
     = Inr ((New [])\<lparr>objs := Some [''e'' \<mapsto> \<lparr>expireAt = 15, data = Some ''''\<rparr>],
                     chClean := Some False\<rparr>) \<and>
   Get 6 ''e'' (New [] :: string Cache) = (None, New []) \<and>
   Get 6 ''e'' ((New [])\<lparr>objs := Some [''e'' \<mapsto> \<lparr>expireAt = 15, data = Some ''''\<rparr>],
                     chClean := Some False\<rparr>)
     = (Some '''', (New [])\<lparr>objs := Some [''e'' \<mapsto> \<lparr>expireAt = 15, data = Some ''''\<rparr>],
                     chClean := Some False\<rparr>)"
  by (simp add: SetEx_def New_def Add_def Get_def map_index_def
      isExpired_def IsZero_def After_def)

text \<open>
  Claim C4, amended. \<open>SetEx\<close> with the nil payload, or with \<open>ttl \<le> 0\<close>, returns the
  cache it was given, whatever the key, the instant and the cache; so \<open>Get\<close> on the key
  answers after the call what it answered before.
\<close>

theorem SetEx_noop:
  assumes "val = None \<or> ttl \<le> 0"
  shows "SetEx now key val ttl c = Inr c \<and>
         (\<forall>c' t. SetEx now key val ttl c = Inr c' \<longrightarrow> Get t key c' = Get t key c)"
  using assms by (auto simp: SetEx_def)

theorem SetEx_noop_witness:
  "SetEx 5 ''k'' None 10 (New [] :: string Cache) = Inr (New []) \<and>
   SetEx 5 ''k'' (Some ''v'') 0 (New []) = Inr (New []) \<and>
   SetEx 5 ''k'' (Some ''v'') (- 3) (New []) = Inr (New []) \<and>
   Get 6 ''k'' (New [] :: string Cache) = (None, New [])"
  using SetEx_noop [of None 10 5 "''k''" "New [] :: string Cache"]
    SetEx_noop [of "Some ''v''" 0 5 "''k''" "New [] :: string Cache"]
    SetEx_noop [of "Some ''v''" "- 3" 5 "''k''" "New [] :: string Cache"]
  by (simp add: Get_def New_def map_index_def)

text \<open>
  What \<open>SetEx\<close> does when it changes the cache: at a reading of the clock that is not
  before the zero instant, the entry it writes has a deadline that is set.
\<close>

lemma SetEx_writes_set_deadline:
  assumes "0 \<le> now" and "SetEx now key val ttl c = Inr c'" and "c' \<noteq> c"
  shows "\<exists>v. map_index (objs c') key = Some v \<and> \<not> IsZero (expireAt v) \<and> data v = val"
  using assms
  by (auto simp: SetEx_def map_index_def IsZero_def Add_def split: if_splits option.splits)

lemma SetEx_other_keys:
  assumes "SetEx now key val ttl c = Inr c'" and "k \<noteq> key"
  shows "map_index (objs c') k = map_index (objs c) k"
  using assms
  by (auto simp: SetEx_def map_index_def split: if_splits option.splits)

section \<open>Closing\<close>

text \<open>
  Claim C5. \<open>Close\<close> on a cache that is not closed returns the nil error, sets the flag
  and replaces the map by nil; a second \<open>Close\<close> returns \<open>ErrAlreadyClosed\<close> and
  leaves the cache as it is; on the closed cache \<open>Get\<close> returns nil for every key and
  every instant, and \<open>SetEx\<close> returns the cache unchanged for all arguments.
\<close>

theorem Close_contract:
  assumes "\<not> closed c"
  shows "\<exists>c'. Close c = (None, c') \<and> closed c' \<and> objs c' = None \<and>
           Close c' = (Some ErrAlreadyClosed, c') \<and>
           (\<forall>now key. Get now key c' = (None, c')) \<and>
           (\<forall>now key val ttl. SetEx now key val ttl c' = Inr c')"
  using assms by (simp add: Close_def Get_def map_index_def SetEx_def)

theorem Close_contract_witness:
  "\<exists>c. SetEx 0 ''k'' (Some ''v'') 100 (New []) = Inr c \<and>
     \<not> closed c \<and> Get 5 ''k'' c = (Some ''v'', c) \<and>
     (\<exists>c'. Close c = (None, c') \<and> closed c' \<and> objs c' = None \<and>
        Close c' = (Some ErrAlreadyClosed, c') \<and>
        Get 5 ''k'' c' = (None, c') \<and>
        SetEx 5 ''k'' (Some ''w'') 10 c' = Inr c')"
proof -
  let ?c = "(New [] :: string Cache)\<lparr>objs := Some [''k'' \<mapsto> \<lparr>expireAt = 100, data = Some ''v''\<rparr>],
              chClean := Some False\<rparr>"
  have s: "SetEx 0 ''k'' (Some ''v'') 100 (New []) = Inr ?c"
    by (simp add: SetEx_def New_def Add_def)
  have o: "\<not> closed ?c" by (simp add: New_def)
  have g: "Get 5 ''k'' ?c = (Some ''v'', ?c)"
    by (simp add: Get_def map_index_def isExpired_def IsZero_def After_def)
  from Close_contract [OF o] obtain c' where
    "Close ?c = (None, c')" "closed c'" "objs c' = None"
    "Close c' = (Some ErrAlreadyClosed, c')"
    "\<forall>now key. Get now key c' = (None, c')"
    "\<forall>now key val ttl. SetEx now key val ttl c' = Inr c'"
    by blast
  with s o g show ?thesis by blast
qed

section \<open>The sweeps\<close>

text \<open>What the loop of the exhaustive sweep leaves at each key.\<close>

lemma expireAll_loop_apply:
  "expireAll_loop now ks m k =
     (case m k of
        None \<Rightarrow> None
      | Some v \<Rightarrow> if k \<in> set ks \<and> isExpired now v then None else Some v)"
proof (induction ks arbitrary: m)
  case Nil
  then show ?case by (simp split: option.splits)
next
  case (Cons a ks)
  then show ?case by (auto split: option.splits)
qed

text \<open>
  Claim C6. The exhaustive strategy reads the clock once, and whatever order the keys of
  the map are ranged over in, the store it leaves holds exactly the entries that are not
  expired at that one instant, each as it was; the other fields of the cache are not
  touched, and a nil map stays nil.
\<close>

theorem expireAll_exact:
  assumes "set ks = keys (objs c)"
  shows "\<exists>mo. lockedExpire ExpireAll (\<lparr>r_now = now, r_order = ks, r_env = env\<rparr> # rs) c
                 = Some (c\<lparr>objs := mo\<rparr>) \<and>
           (mo = None \<longleftrightarrow> objs c = None) \<and>
           (\<forall>k. map_index mo k =
              (case map_index (objs c) k of
                 None \<Rightarrow> None
               | Some v \<Rightarrow> if isExpired now v then None else Some v))"
proof (cases "objs c")
  case None
  then show ?thesis
    by (simp add: expireAll_lockedExpire_def lockedExpireAll_def map_index_def)
next
  case (Some m)
  with assms have ks: "set ks = dom m" by (simp add: keys_def)
  have "\<forall>k. expireAll_loop now ks m k =
          (case m k of None \<Rightarrow> None | Some v \<Rightarrow> if isExpired now v then None else Some v)"
    using ks by (auto simp: expireAll_loop_apply split: option.splits)
  then have a: "\<forall>k. map_index (Some (expireAll_loop now ks m)) k =
          (case map_index (objs c) k of
             None \<Rightarrow> None
           | Some v \<Rightarrow> if isExpired now v then None else Some v)"
    using Some by (simp add: map_index_def)
  have b: "lockedExpire ExpireAll (\<lparr>r_now = now, r_order = ks, r_env = env\<rparr> # rs) c
      = Some (c\<lparr>objs := Some (expireAll_loop now ks m)\<rparr>)"
    using Some by (simp add: expireAll_lockedExpire_def lockedExpireAll_def)
  have d: "(Some (expireAll_loop now ks m) = None) = (objs c = None)"
    using Some by simp
  show ?thesis
    by (rule exI [where x = "Some (expireAll_loop now ks m)"]) (intro conjI a b d)
qed

theorem expireAll_exact_witness:
  "set [''b'', ''a'', ''n''] =
     keys (objs ((New [] :: string Cache)\<lparr>objs := Some [''a'' \<mapsto> \<lparr>expireAt = 5, data = Some ''x''\<rparr>,
        ''b'' \<mapsto> \<lparr>expireAt = 50, data = Some ''y''\<rparr>,
        ''n'' \<mapsto> \<lparr>expireAt = 0, data = Some ''z''\<rparr>]\<rparr>)) \<and>
   (\<exists>mo. lockedExpire ExpireAll [\<lparr>r_now = 10, r_order = [''b'', ''a'', ''n''], r_env = id\<rparr>]
       ((New [] :: string Cache)\<lparr>objs := Some [''a'' \<mapsto> \<lparr>expireAt = 5, data = Some ''x''\<rparr>,
        ''b'' \<mapsto> \<lparr>expireAt = 50, data = Some ''y''\<rparr>,
        ''n'' \<mapsto> \<lparr>expireAt = 0, data = Some ''z''\<rparr>]\<rparr>)
       = Some ((New [])\<lparr>objs := mo\<rparr>) \<and>
       map_index mo ''a'' = None \<and>
       map_index mo ''b'' = Some \<lparr>expireAt = 50, data = Some ''y''\<rparr> \<and>
       map_index mo ''n'' = Some \<lparr>expireAt = 0, data = Some ''z''\<rparr>)"
proof -
  let ?m = "[''a'' \<mapsto> \<lparr>expireAt = 5, data = Some ''x''\<rparr>,
        ''b'' \<mapsto> \<lparr>expireAt = 50, data = Some ''y''\<rparr>,
        ''n'' \<mapsto> \<lparr>expireAt = 0, data = Some ''z''\<rparr>] :: string \<rightharpoonup> string value_rec"
  let ?c = "(New [] :: string Cache)\<lparr>objs := Some ?m\<rparr>"
  have h: "set [''b'', ''a'', ''n''] = keys (objs ?c)"
    by (auto simp: keys_def)
  from expireAll_exact [OF h, of 10 id "[]"] obtain mo where
    1: "lockedExpire ExpireAll [\<lparr>r_now = 10, r_order = [''b'', ''a'', ''n''], r_env = id\<rparr>] ?c
          = Some (?c\<lparr>objs := mo\<rparr>)"
    and 2: "\<forall>k. map_index mo k =
              (case map_index (objs ?c) k of
                 None \<Rightarrow> None
               | Some v \<Rightarrow> if isExpired 10 v then None else Some v)"
    by blast
  have a: "map_index mo ''a'' = None"
    using 2 [rule_format, of "''a''"]
    by (simp add: map_index_def isExpired_def IsZero_def After_def)
  have b: "map_index mo ''b'' = Some \<lparr>expireAt = 50, data = Some ''y''\<rparr>"
    using 2 [rule_format, of "''b''"]
    by (simp add: map_index_def isExpired_def IsZero_def After_def)
  have n: "map_index mo ''n'' = Some \<lparr>expireAt = 0, data = Some ''z''\<rparr>"
    using 2 [rule_format, of "''n''"]
    by (simp add: map_index_def isExpired_def IsZero_def After_def)
  have 3: "lockedExpire ExpireAll [\<lparr>r_now = 10, r_order = [''b'', ''a'', ''n''], r_env = id\<rparr>] ?c
          = Some ((New [])\<lparr>objs := mo\<rparr>)"
    using 1 by simp
  show ?thesis
    by (intro conjI h exI [where x = mo] 3 a b n)
qed

text \<open>
  Claim C7. For every bounded-batch strategy and every cache whose store holds at most
  \<open>batchSize\<close> entries, one invocation returns what the exhaustive strategy returns on
  the first reading of the clock and the first order of the keys: no further round is
  consumed and the cache is not handed to the other goroutines.
\<close>

theorem expirePartial_small_store:
  assumes "len (objs c) \<le> batchSize e"
  shows "expirePartial_lockedExpire e (r # rs) c
           = Some (expireAll_lockedExpire (r_now r) (r_order r) c) \<and>
         lockedExpire (ExpirePartial e) (r # rs) c = lockedExpire ExpireAll (r # rs) c"
  using assms by (simp add: expirePartial_lockedExpire_def)

theorem expirePartial_small_store_witness:
  "len (objs ((New [] :: string Cache)\<lparr>objs := Some [''a'' \<mapsto> \<lparr>expireAt = 5, data = Some ''x''\<rparr>,
        ''b'' \<mapsto> \<lparr>expireAt = 50, data = Some ''y''\<rparr>]\<rparr>))
     \<le> batchSize \<lparr>batchSize = 2, continueRatio = Finite (1 / 2)\<rparr> \<and>
   expirePartial_lockedExpire \<lparr>batchSize = 2, continueRatio = Finite (1 / 2)\<rparr>
       [\<lparr>r_now = 10, r_order = [''a'', ''b''], r_env = (\<lambda>c. c\<lparr>closed := True\<rparr>)\<rparr>]
       ((New [] :: string Cache)\<lparr>objs := Some [''a'' \<mapsto> \<lparr>expireAt = 5, data = Some ''x''\<rparr>,
        ''b'' \<mapsto> \<lparr>expireAt = 50, data = Some ''y''\<rparr>]\<rparr>)
     = Some ((New [])\<lparr>objs := Some [''b'' \<mapsto> \<lparr>expireAt = 50, data = Some ''y''\<rparr>]\<rparr>)"
proof -
  let ?m = "[''a'' \<mapsto> \<lparr>expireAt = 5, data = Some ''x''\<rparr>,
        ''b'' \<mapsto> \<lparr>expireAt = 50, data = Some ''y''\<rparr>] :: string \<rightharpoonup> string value_rec"
  let ?c = "(New [] :: string Cache)\<lparr>objs := Some ?m\<rparr>"
  let ?e = "\<lparr>batchSize = 2, continueRatio = Finite (1 / 2)\<rparr>"
  have h: "len (objs ?c) \<le> batchSize ?e"
    by (simp add: len_def)
  have "expireAll_lockedExpire 10 [''a'', ''b''] ?c
          = (New [])\<lparr>objs := Some [''b'' \<mapsto> \<lparr>expireAt = 50, data = Some ''y''\<rparr>]\<rparr>"
    by (simp add: expireAll_lockedExpire_def lockedExpireAll_def isExpired_def IsZero_def
        After_def fun_upd_twist)
  with h expirePartial_small_store [OF h,
      of "\<lparr>r_now = 10, r_order = [''a'', ''b''], r_env = (\<lambda>c. c\<lparr>closed := True\<rparr>)\<rparr>" "[]"]
  show ?thesis by simp
qed




section \<open>Constructing the bounded-batch strategy\<close>

text \<open>
  For every batch size and every continue ratio that is not a NaN, the strategy made by
  \<open>NewExpirePartial\<close> has \<open>batchSize \<ge> 1\<close> and \<open>0 < continueRatio \<le> 1\<close>, with arguments
  in range kept as they are.
\<close>

lemma NewExpirePartial_range:
  assumes "cr \<noteq> NaN"
  shows "\<exists>e. NewExpirePartial bs cr = ExpirePartial e \<and>
           1 \<le> batchSize e \<and>
           f64_lt (Finite 0) (continueRatio e) \<and> f64_le (continueRatio e) (Finite 1) \<and>
           batchSize e = (if bs \<le> 0 then 1 else bs) \<and>
           continueRatio e =
             (if f64_le cr (Finite 0) then f64_0_01
              else if f64_lt (Finite 1) cr then Finite 1 else cr)"
  using assms
  by (cases cr) (auto simp: NewExpirePartial_def Let_def f64_gt_def f64_0_01_def)

text \<open>
  Claim C8. The claim is that for every pair of arguments the strategy returned has
  \<open>batchSize \<ge> 1\<close> and \<open>0 < continueRatio \<le> 1\<close>. A NaN passes both tests of the
  constructor, since \<open>NaN \<le> 0\<close> and \<open>NaN > 1\<close> are false, and is stored as the
  continue ratio, which is then neither above 0 nor at most 1.
\<close>

theorem NewExpirePartial_keeps_NaN:
  "NewExpirePartial 10 NaN = ExpirePartial \<lparr>batchSize = 10, continueRatio = NaN\<rparr> \<and>
   \<not> f64_lt (Finite 0) NaN \<and> \<not> f64_le NaN (Finite 1)"
  by (simp add: NewExpirePartial_def f64_gt_def)

text \<open>
  With a NaN as continue ratio the test \<open>ratio < continueRatio\<close> of the loop never
  succeeds: as long as the cache is not closed, the loop does not return, however many
  rounds it is given.
\<close>

lemma expirePartial_loop_NaN:
  assumes "continueRatio e = NaN" and "\<not> closed c"
    and "\<forall>r \<in> set rs. \<forall>x. closed (r_env r x) = closed x"
  shows "expirePartial_loop e rs c = None"
  using assms
proof (induction rs arbitrary: c)
  case Nil
  then show ?case by simp
next
  case (Cons r rs)
  obtain ratio mo where l: "lockedExpireSome (r_now r) (batchSize e) (r_order r) (objs c) = (ratio, mo)"
    by (cases "lockedExpireSome (r_now r) (batchSize e) (r_order r) (objs c)") auto
  have nl: "\<not> f64_lt ratio NaN" by (cases ratio) simp_all
  have nc: "\<not> closed (r_env r (c\<lparr>objs := mo\<rparr>))"
    using Cons.prems by simp
  have "expirePartial_loop e rs (r_env r (c\<lparr>objs := mo\<rparr>)) = None"
    using Cons.IH [OF Cons.prems(1) nc] Cons.prems(3) by simp
  with l nl nc Cons.prems(1) show ?case by (simp add: Let_def)
qed

section \<open>Lazy eviction\<close>

text \<open>
  \<open>Get\<close> evicts exactly when \<open>isExpired\<close> holds. \<open>TTL\<close> does not call \<open>isExpired\<close>:
  it evicts exactly when the deadline is at or before \<open>now\<close>, whether the deadline is
  set or not.
\<close>

lemma Get_evicts_iff:
  assumes "map_index (objs c) key = Some v"
  shows "Get now key c =
           (if isExpired now v then (None, c\<lparr>objs := map_delete (objs c) key\<rparr>)
            else (data v, c))"
  using assms by (simp add: Get_def)

lemma TTL_evicts_iff:
  assumes "map_index (objs c) key = Some v"
  shows "TTL now key c =
           (if expireAt v \<le> now then (- 1, c\<lparr>objs := map_delete (objs c) key\<rparr>)
            else (Sub (expireAt v) now, c))"
  using assms by (simp add: TTL_def Let_def Sub_nonpos)

lemma isExpired_imp_TTL_evicts: "isExpired now v \<Longrightarrow> expireAt v \<le> now"
  by (simp add: isExpired_def After_def)

lemma Get_absent: "map_index (objs c) key = None \<Longrightarrow> Get now key c = (None, c)"
  by (simp add: Get_def)

lemma TTL_absent: "map_index (objs c) key = None \<Longrightarrow> TTL now key c = (- 1, c)"
  by (simp add: TTL_def)

lemma Get_frame:
  "closed (snd (Get now key c)) = closed c \<and>
   durClean (snd (Get now key c)) = durClean c \<and>
   expirer (snd (Get now key c)) = expirer c \<and>
   chClean (snd (Get now key c)) = chClean c \<and>
   (key2 \<noteq> key \<longrightarrow> map_index (objs (snd (Get now key c))) key2 = map_index (objs c) key2)"
  by (auto simp: Get_def map_index_def map_delete_def split: option.splits)

lemma TTL_frame:
  "closed (snd (TTL now key c)) = closed c \<and>
   durClean (snd (TTL now key c)) = durClean c \<and>
   expirer (snd (TTL now key c)) = expirer c \<and>
   chClean (snd (TTL now key c)) = chClean c \<and>
   (key2 \<noteq> key \<longrightarrow> map_index (objs (snd (TTL now key c))) key2 = map_index (objs c) key2)"
  by (auto simp: TTL_def Let_def map_index_def map_delete_def split: option.splits)

lemma Get_keeps_unexpired:
  "map_index (objs c) key = Some v \<Longrightarrow> \<not> isExpired now v \<Longrightarrow> snd (Get now key c) = c"
  by (simp add: Get_def)

lemma TTL_keeps_before_deadline:
  "map_index (objs c) key = Some v \<Longrightarrow> now < expireAt v \<Longrightarrow> snd (TTL now key c) = c"
  by (simp add: TTL_evicts_iff)

text \<open>
  Claim C2. The claim is that \<open>TTL\<close> evicts and returns \<open>-1\<close> exactly when \<open>isExpired\<close>
  holds, as \<open>Get\<close> does. At the instant of the deadline itself the entry written by
  \<open>SetEx\<close> is not expired and \<open>Get\<close> returns its payload, while \<open>TTL\<close> deletes it and
  returns \<open>-1\<close>.
\<close>

theorem TTL_evicts_at_deadline:
  "SetEx 0 ''k'' (Some ''v'') 100 (New [])
     = Inr ((New [])\<lparr>objs := Some [''k'' \<mapsto> \<lparr>expireAt = 100, data = Some ''v''\<rparr>],
                     chClean := Some False\<rparr>) \<and>
   \<not> isExpired 100 \<lparr>expireAt = 100, data = Some ''v''\<rparr> \<and>
   Get 100 ''k'' ((New [])\<lparr>objs := Some [''k'' \<mapsto> \<lparr>expireAt = 100, data = Some ''v''\<rparr>],
                     chClean := Some False\<rparr>)
     = (Some ''v'', (New [])\<lparr>objs := Some [''k'' \<mapsto> \<lparr>expireAt = 100, data = Some ''v''\<rparr>],
                     chClean := Some False\<rparr>) \<and>
   TTL 100 ''k'' ((New [])\<lparr>objs := Some [''k'' \<mapsto> \<lparr>expireAt = 100, data = Some ''v''\<rparr>],
                     chClean := Some False\<rparr>)
     = (- 1, (New [])\<lparr>objs := Some Map.empty, chClean := Some False\<rparr>)"
  by (simp add: SetEx_def New_def Add_def Get_def TTL_def Sub_def map_index_def map_delete_def
      isExpired_def IsZero_def After_def minDuration_def maxDuration_def)








text \<open>
  Claim C10. The claim is that \<open>Get\<close> and \<open>TTL\<close> change nothing but the entry of
  their key, and that entry only by deleting it when it is expired. The frame holds for
  both (\<open>Get_frame\<close>, \<open>TTL_frame\<close>), and \<open>Get\<close> leaves the store as it is when the
  entry is not expired. \<open>TTL\<close> at the instant of the deadline deletes an entry that is
  not expired.
\<close>

theorem TTL_deletes_unexpired_entry:
  "map_index (Some [''j'' \<mapsto> \<lparr>expireAt = 500, data = Some ''w''\<rparr>,
                    ''k'' \<mapsto> \<lparr>expireAt = 100, data = Some ''v''\<rparr>]) ''k''
     = Some \<lparr>expireAt = 100, data = Some ''v''\<rparr> \<and>
   \<not> isExpired 100 \<lparr>expireAt = 100, data = Some ''v''\<rparr> \<and>
   snd (Get 100 ''k'' ((New [])\<lparr>objs := Some [''j'' \<mapsto> \<lparr>expireAt = 500, data = Some ''w''\<rparr>,
                    ''k'' \<mapsto> \<lparr>expireAt = 100, data = Some ''v''\<rparr>]\<rparr>))
     = (New [])\<lparr>objs := Some [''j'' \<mapsto> \<lparr>expireAt = 500, data = Some ''w''\<rparr>,
                    ''k'' \<mapsto> \<lparr>expireAt = 100, data = Some ''v''\<rparr>]\<rparr> \<and>
   snd (TTL 100 ''k'' ((New [])\<lparr>objs := Some [''j'' \<mapsto> \<lparr>expireAt = 500, data = Some ''w''\<rparr>,
                    ''k'' \<mapsto> \<lparr>expireAt = 100, data = Some ''v''\<rparr>]\<rparr>))
     = (New [])\<lparr>objs := Some [''j'' \<mapsto> \<lparr>expireAt = 500, data = Some ''w''\<rparr>]\<rparr> \<and>
   map_index (objs (snd (TTL 100 ''k'' ((New [])\<lparr>objs := Some [''j'' \<mapsto> \<lparr>expireAt = 500, data = Some ''w''\<rparr>,
                    ''k'' \<mapsto> \<lparr>expireAt = 100, data = Some ''v''\<rparr>]\<rparr>)))) ''k'' = None"
  by (simp add: New_def Get_def TTL_def Sub_def map_index_def map_delete_def
      isExpired_def IsZero_def After_def minDuration_def maxDuration_def)

end
